theory Spec2Isabelle
  imports Complex_Main
begin

section \<open>Numbers and errors\<close>

text \<open>
  The program computes with Python floats. They are modelled as the reals: rounding,
  overflow and the special values of IEEE arithmetic are outside the model, and a
  result that is not a real number is an outcome of its own (\<open>NonFinite\<close> for the
  nan and inf of numpy, \<open>ComplexNumber\<close> where Python's power leaves the reals).
  Every exception the modelled code can raise is a value of \<open>error\<close>.
  \<open>PropertyNotDefined\<close> and \<open>CircularEvaluation\<close> are the error kinds the
  specification names for the property model.
\<close>

datatype error =
    ZeroDivisionError
  | TypeError
  | AttributeError
  | ValueError
  | RecursionError
  | PropertyNotDefined
  | CircularEvaluation

datatype number = Finite real | NonFinite | ComplexNumber

definition then_do :: "error + 'a \<Rightarrow> ('a \<Rightarrow> error + 'b) \<Rightarrow> error + 'b" where
  "then_do r f = (case r of Inl e \<Rightarrow> Inl e | Inr v \<Rightarrow> f v)"

definition is_integral :: "real \<Rightarrow> bool" where
  "is_integral y = (y = of_int \<lfloor>y\<rfloor>)"

text \<open>
  Python's \<open>x ** y\<close> on two floats: a zero base with a negative exponent raises, a
  negative base with a fractional exponent gives a complex number.
\<close>

definition float_pow :: "real \<Rightarrow> real \<Rightarrow> error + number" where
  "float_pow x y =
     (if x = 0 then
        (if y < 0 then Inl ZeroDivisionError
         else Inr (Finite (if y = 0 then 1 else 0)))
      else if 0 < x then Inr (Finite (x powr y))
      else if is_integral y then Inr (Finite (power_int x \<lfloor>y\<rfloor>))
      else Inr ComplexNumber)"

text \<open>
  The same power when the exponent is a numpy float (the result of \<open>np.sqrt\<close>):
  numpy raises nothing and answers nan or inf where Python would raise or turn complex.
\<close>

definition numpy_pow :: "real \<Rightarrow> real \<Rightarrow> number" where
  "numpy_pow x y =
     (if x = 0 then
        (if y < 0 then NonFinite else Finite (if y = 0 then 1 else 0))
      else if 0 < x then Finite (x powr y)
      else if is_integral y then Finite (power_int x \<lfloor>y\<rfloor>)
      else NonFinite)"

section \<open>Axial velocity in a pipe (flow/pipe\_velocity.py)\<close>

text \<open>
  \<open>v_axial v_mean d_pipe r nu lambda_coeff n\<close>. The optional arguments are options;
  \<open>n\<close> is an integer as annotated in the source. Division by a zero float raises
  \<open>ZeroDivisionError\<close>, first for \<open>nu\<close>, then for \<open>d_pipe\<close> in the laminar
  branch and for \<open>n\<close> in the turbulent one.
\<close>

definition v_axial ::
  "real \<Rightarrow> real \<Rightarrow> real \<Rightarrow> real \<Rightarrow> real option \<Rightarrow> int option \<Rightarrow> error + number" where
  "v_axial v_mean d_pipe r nu lambda_coeff n =
     (if nu = 0 then Inl ZeroDivisionError
      else
        let Re = v_mean * d_pipe / nu in
        if Re < 2300 then
          (let v_max = 2 * v_mean in
           if d_pipe = 0 then Inl ZeroDivisionError
           else Inr (Finite (v_max * (1 - 4 * (r / d_pipe)\<^sup>2))))
        else
          (case lambda_coeff of
             None \<Rightarrow>
               (let n' = (case n of None \<Rightarrow> 6 | Some k \<Rightarrow> k) in
                if n' = 0 then Inl ZeroDivisionError
                else
                  let reciprocal_of_n = 1 / of_int n';
                      x = (reciprocal_of_n + 2) * (reciprocal_of_n + 1);
                      v_max = v_mean * x / 2
                  in if d_pipe = 0 then Inl ZeroDivisionError
                     else then_do (float_pow (1 - 2 * r / d_pipe) reciprocal_of_n)
                       (\<lambda>w. Inr (case w of Finite y \<Rightarrow> Finite (v_max * y)
                                    | NonFinite \<Rightarrow> NonFinite
                                    | ComplexNumber \<Rightarrow> ComplexNumber)))
           | Some l \<Rightarrow>
               (if l < 0 then
                  (if d_pipe = 0 then Inl ZeroDivisionError else Inr NonFinite)
                else
                  let reciprocal_of_n = sqrt l;
                      x = (reciprocal_of_n + 2) * (reciprocal_of_n + 1);
                      v_max = v_mean * x / 2
                  in if d_pipe = 0 then Inl ZeroDivisionError
                     else Inr (case numpy_pow (1 - 2 * r / d_pipe) reciprocal_of_n of
                                 Finite y \<Rightarrow> Finite (v_max * y)
                               | NonFinite \<Rightarrow> NonFinite
                               | ComplexNumber \<Rightarrow> ComplexNumber))))"

section \<open>Unit conversion\<close>

text \<open>
  Modelled from the spec: \<open>C2K\<close> is imported from a conversion module that is not among
  the sources. The specification gives \<open>C2K(celsius) -> kelvin\<close>; the offset 273.15 is
  the one \<open>_c_sound\<close> in gases.py divides by.
\<close>

definition C2K :: "real \<Rightarrow> real" where
  "C2K c = c + 273.15"

text \<open>
  Modelled from the spec: \<open>atm\<close>, from the same absent module; the specification gives
  \<open>atm() -> pascal\<close>, the standard atmosphere. The value is the \<open>101.325e3\<close> that
  genericmatter.py writes where matter.py calls \<open>atm()\<close>.
\<close>

definition atm :: real where
  "atm = 101325"

section \<open>Iron (matter/FerrousMetals.py)\<close>

text \<open>
  The temperatures set in \<open>Iron.__init__\<close> and the viscosity rule \<open>Iron._mu\<close>, which
  is assigned to \<open>mu.calc\<close>. The division is only reached above \<open>T_deform\<close>, which is
  positive, so the rule raises nothing.
\<close>

definition Iron_T_sol :: real where
  "Iron_T_sol = C2K 1430"

definition Iron_T_liq :: real where
  "Iron_T_liq = Iron_T_sol + 50"

definition Iron_T_deform :: real where
  "Iron_T_deform = Iron_T_sol + 0.66 * (Iron_T_liq - Iron_T_sol)"

definition Iron_mu :: "real \<Rightarrow> real \<Rightarrow> real \<Rightarrow> real" where
  "Iron_mu T p x =
     (if T > Iron_T_deform then 0.0003699 * exp (41400 / (8.3144 * T)) else 10 ^ 20)"

section \<open>Table lookup (matter/gases.py)\<close>

text \<open>
  The tabulated rules of gases.py return \<open>np.interp(T, Tp, Up)\<close>. For a scalar \<open>T\<close>
  numpy raises \<open>ValueError\<close> when the two lists differ in length or are empty, returns
  the first ordinate left of the table and the last one right of it, the ordinate
  itself at a sample point, and otherwise the value on the line through the two
  neighbouring samples. numpy finds the interval by bisection; on the increasing
  abscissae it requires, the scan from the left below finds the same interval.
  \<open>interp_from x x0 y0 ps\<close> continues a lookup that has reached the sample
  \<open>(x0, y0)\<close> with the samples \<open>ps\<close> still to its right.
\<close>

fun interp_from :: "real \<Rightarrow> real \<Rightarrow> real \<Rightarrow> (real \<times> real) list \<Rightarrow> real" where
  "interp_from x x0 y0 [] = y0"
| "interp_from x x0 y0 ((x1, y1) # ps) =
     (if x < x1 then
        (if x = x0 then y0 else (y1 - y0) / (x1 - x0) * (x - x0) + y0)
      else interp_from x x1 y1 ps)"

definition interp :: "real \<Rightarrow> real list \<Rightarrow> real list \<Rightarrow> error + real" where
  "interp x xp fp =
     (if length xp \<noteq> length fp then Inl ValueError
      else case zip xp fp of
             [] \<Rightarrow> Inl ValueError
           | (x0, y0) # ps \<Rightarrow> Inr (if x < x0 then y0 else interp_from x x0 y0 ps))"

text \<open>The precondition on a table: strictly increasing sample temperatures.\<close>

fun increasing :: "real list \<Rightarrow> bool" where
  "increasing [] = True"
| "increasing [a] = True"
| "increasing (a # b # xs) = (a < b \<and> increasing (b # xs))"

text \<open>\<open>Air_interpolated._c_p\<close>: the table \<open>Tp\<close>, \<open>Up\<close> and the lookup.\<close>

definition Air_c_p_Tp :: "real list" where
  "Air_c_p_Tp =
     [100, 150, 200, 250, 300, 350, 400,
      450, 500, 550, 600, 650, 700, 750,
      800, 850, 900, 950, 1000, 1100, 1200,
      1300, 1400, 1500, 1600, 1700, 1800, 1900,
      2000, 2100, 2200, 2300, 2400, 2500, 3000]"

definition Air_c_p_Up :: "real list" where
  "Air_c_p_Up =
     [1032, 1012, 1007, 1006, 1007, 1009, 1014,
      1021, 1030, 1040, 1051, 1063, 1075, 1087,
      1099, 1110, 1121, 1131, 1141, 1159, 1175,
      1189, 1207, 1230, 1248, 1267, 1286, 1307,
      1337, 1372, 1417, 1478, 1558, 1665, 2726]"

definition Air_interpolated_c_p :: "real \<Rightarrow> real \<Rightarrow> real \<Rightarrow> error + real" where
  "Air_interpolated_c_p T p x = interp T Air_c_p_Tp Air_c_p_Up"

section \<open>Properties and matter (property/matter.py)\<close>

text \<open>
  The properties a \<open>Matter\<close> owns (\<open>a\<close>, \<open>beta\<close>, \<open>c_p\<close>, \<open>c_sound\<close>, \<open>E\<close>,
  \<open>lambda_\<close>, \<open>rho\<close>, \<open>rho_el\<close>) and the three a \<open>Fluid\<close> adds (\<open>mu\<close>, \<open>nu\<close>,
  \<open>Pr\<close>).
\<close>

datatype pname =
    P_a | P_beta | P_c_p | P_c_sound | P_E | P_lambda | P_rho | P_rho_el
  | P_mu | P_nu | P_Pr

text \<open>
  What \<open>calc\<close> of a property holds. The lambdas the constructors assign close over
  \<open>self\<close> and look the sibling properties up when they are called, so each of them is
  a tag that is interpreted against the state of the matter at the time of the call.
  \<open>Formula\<close> is a rule that reads no sibling property: a constant, a closed form or a
  table of a concrete substance. It returns a float or Python's \<open>None\<close>, or raises.
\<close>

datatype rule =
    Unset
  | Formula "real \<Rightarrow> real \<Rightarrow> real \<Rightarrow> error + real option"
  | A_default
  | Rho_thermal
  | Rho_thermal_elastic
  | Mu_default
  | Nu_default
  | Pr_default

text \<open>
  Modelled from the spec: the class \<open>Property\<close> is imported from property.py, which is
  not among the sources. From the specification a property has a reference value
  (\<open>float | null\<close>), a reference temperature and pressure, and a rule \<open>calc\<close> that
  may be unset. \<open>x_ref\<close> completes the state a call without arguments evaluates at.
\<close>

record property =
  ref :: "real option"
  T_ref :: real
  p_ref :: real
  x_ref :: real
  calc :: rule

text \<open>
  A matter maps the name of each attribute it has to the property bound to it; a name
  it does not map is an attribute the object lacks (\<open>AttributeError\<close>).
\<close>

type_synonym matter = "pname \<Rightarrow> property option"

text \<open>
  Arithmetic on what a rule returns: an operand \<open>None\<close> raises \<open>TypeError\<close>, a zero
  divisor \<open>ZeroDivisionError\<close>.
\<close>

definition py_add :: "real option \<Rightarrow> real option \<Rightarrow> error + real option" where
  "py_add a b = (case (a, b) of (Some u, Some v) \<Rightarrow> Inr (Some (u + v)) | _ \<Rightarrow> Inl TypeError)"

definition py_sub :: "real option \<Rightarrow> real option \<Rightarrow> error + real option" where
  "py_sub a b = (case (a, b) of (Some u, Some v) \<Rightarrow> Inr (Some (u - v)) | _ \<Rightarrow> Inl TypeError)"

definition py_mul :: "real option \<Rightarrow> real option \<Rightarrow> error + real option" where
  "py_mul a b = (case (a, b) of (Some u, Some v) \<Rightarrow> Inr (Some (u * v)) | _ \<Rightarrow> Inl TypeError)"

definition py_div :: "real option \<Rightarrow> real option \<Rightarrow> error + real option" where
  "py_div a b =
     (case (a, b) of
        (Some u, Some v) \<Rightarrow> if v = 0 then Inl ZeroDivisionError else Inr (Some (u / v))
      | _ \<Rightarrow> Inl TypeError)"

text \<open>
  Modelled from the spec: \<open>evaluate k busy m q args\<close> is the call \<open>self.q(...)\<close>,
  that is \<open>Property.__call__\<close>, which is not among the sources. From section 4.2 of the
  specification it fails with \<open>PropertyNotDefined\<close> if \<open>calc\<close> is unset, fails with
  \<open>CircularEvaluation\<close> if the same property is already being evaluated (\<open>busy\<close>), and
  otherwise invokes the current \<open>calc\<close>. \<open>args = None\<close> is the call without arguments
  (\<open>self.beta()\<close>, \<open>self.E()\<close>), evaluated at the property's reference state. An
  unset rule that is called directly fails in the same way.

  \<open>call_calc k busy m q T p x\<close> is the call \<open>self.q.calc(T, p, x)\<close> as the lambdas of
  \<open>Matter.__init__\<close> and \<open>Fluid.__init__\<close> in matter.py write it: the rule is run
  directly, with the operands evaluated left to right. \<open>k\<close> counts the frames left
  before the interpreter's recursion limit, at which Python raises \<open>RecursionError\<close>.
\<close>

fun evaluate ::
    "nat \<Rightarrow> pname set \<Rightarrow> matter \<Rightarrow> pname \<Rightarrow> (real \<times> real \<times> real) option \<Rightarrow> error + real option"
  and call_calc ::
    "nat \<Rightarrow> pname set \<Rightarrow> matter \<Rightarrow> pname \<Rightarrow> real \<Rightarrow> real \<Rightarrow> real \<Rightarrow> error + real option"
where
  "evaluate 0 busy m q args =
     (case m q of None \<Rightarrow> Inl AttributeError | Some P \<Rightarrow> Inl RecursionError)"
| "evaluate (Suc k) busy m q args =
     (case m q of
        None \<Rightarrow> Inl AttributeError
      | Some P \<Rightarrow>
          if calc P = Unset then Inl PropertyNotDefined
          else if q \<in> busy then Inl CircularEvaluation
          else (case args of
                  None \<Rightarrow> call_calc k (insert q busy) m q (T_ref P) (p_ref P) (x_ref P)
                | Some (T, p, x) \<Rightarrow> call_calc k (insert q busy) m q T p x))"
| "call_calc 0 busy m q T p x =
     (case m q of
        None \<Rightarrow> Inl AttributeError
      | Some P \<Rightarrow> if calc P = Unset then Inl PropertyNotDefined else Inl RecursionError)"
| "call_calc (Suc k) busy m q T p x =
     (case m q of
        None \<Rightarrow> Inl AttributeError
      | Some P \<Rightarrow>
          (case calc P of
             Unset \<Rightarrow> Inl PropertyNotDefined
           | Formula f \<Rightarrow> f T p x
           | A_default \<Rightarrow>
               then_do (call_calc k busy m P_lambda T p x) (\<lambda>l.
               then_do (call_calc k busy m P_c_p T p x) (\<lambda>c.
               then_do (call_calc k busy m P_rho T p x) (\<lambda>r.
               then_do (py_mul c r) (\<lambda>d. py_div l d))))
           | Rho_thermal \<Rightarrow>
               (case m P_rho of
                  None \<Rightarrow> Inl AttributeError
                | Some R \<Rightarrow>
                    then_do (evaluate k busy m P_beta None) (\<lambda>b.
                    then_do (py_mul (Some (T - T_ref R)) b) (\<lambda>t.
                    then_do (py_add (Some 1) t) (\<lambda>d. py_div (ref R) d))))
           | Rho_thermal_elastic \<Rightarrow>
               (case m P_rho of
                  None \<Rightarrow> Inl AttributeError
                | Some R \<Rightarrow>
                    then_do (evaluate k busy m P_beta None) (\<lambda>b.
                    then_do (py_mul (Some (T - T_ref R)) b) (\<lambda>t.
                    then_do (py_add (Some 1) t) (\<lambda>d.
                    then_do (py_div (ref R) d) (\<lambda>r1.
                    then_do (evaluate k busy m P_E None) (\<lambda>e.
                    then_do (py_div (Some (p - p_ref R)) e) (\<lambda>s.
                    then_do (py_sub (Some 1) s) (\<lambda>d2. py_div r1 d2))))))))
           | Mu_default \<Rightarrow>
               then_do (call_calc k busy m P_nu T p x) (\<lambda>n.
               then_do (call_calc k busy m P_rho T p x) (\<lambda>r. py_mul n r))
           | Nu_default \<Rightarrow>
               then_do (call_calc k busy m P_mu T p x) (\<lambda>u.
               then_do (call_calc k busy m P_rho T p x) (\<lambda>r. py_div u r))
           | Pr_default \<Rightarrow>
               then_do (call_calc k busy m P_a T p x) (\<lambda>a.
               then_do (call_calc k busy m P_nu T p x) (\<lambda>n. py_div a n))))"

text \<open>
  Modelled from the spec: the constructor call \<open>Property(name, unit, ref=r, calc=c)\<close> of
  the absent class. A new property has the reference value and the rule it is given
  (null and unset when left out); \<open>pt\<close> is the reference state \<open>(T, p, x)\<close> the
  constructor gives it.
\<close>

definition Property :: "real \<times> real \<times> real \<Rightarrow> real option \<Rightarrow> rule \<Rightarrow> property" where
  "Property pt r c =
     \<lparr>ref = r, T_ref = fst pt, p_ref = fst (snd pt), x_ref = snd (snd pt), calc = c\<rparr>"

text \<open>
  \<open>Matter.__init__\<close>. Line 88 calls the \<open>E\<close> it has just created, which has no rule
  yet, and compares the result with \<open>None\<close> and with \<open>1e-20\<close> to choose the density
  rule, once. What that call returns is decided by the absent class \<open>Property\<close>; it is
  the argument \<open>E0\<close>.
\<close>

definition Matter_init :: "real \<times> real \<times> real \<Rightarrow> real option \<Rightarrow> matter" where
  "Matter_init pt E0 =
     [P_a \<mapsto> Property pt None A_default,
      P_beta \<mapsto> Property pt None Unset,
      P_c_p \<mapsto> Property pt None Unset,
      P_c_sound \<mapsto> Property pt None (Formula (\<lambda>T p x. Inr (Some 1))),
      P_E \<mapsto> Property pt None Unset,
      P_lambda \<mapsto> Property pt None Unset,
      P_rho \<mapsto> (Property pt (Some 1)
                  (case E0 of
                     None \<Rightarrow> Rho_thermal
                   | Some e \<Rightarrow> if \<bar>e\<bar> < 1 / 10 ^ 20 then Rho_thermal else Rho_thermal_elastic))
                \<lparr>T_ref := C2K 20, p_ref := atm\<rparr>,
      P_rho_el \<mapsto> Property pt None Unset]"

text \<open>\<open>Fluid.__init__\<close>: the matter above with \<open>mu\<close>, \<open>nu\<close> and \<open>Pr\<close> wired to each other.\<close>

definition Fluid_init :: "real \<times> real \<times> real \<Rightarrow> real option \<Rightarrow> matter" where
  "Fluid_init pt E0 =
     (Matter_init pt E0)
       (P_mu \<mapsto> Property pt None Mu_default,
        P_nu \<mapsto> Property pt None Nu_default,
        P_Pr \<mapsto> Property pt None Pr_default)"

text \<open>The assignment \<open>self.q.calc = c\<close>.\<close>

definition set_calc :: "matter \<Rightarrow> pname \<Rightarrow> rule \<Rightarrow> error + matter" where
  "set_calc m q c =
     (case m q of None \<Rightarrow> Inl AttributeError | Some P \<Rightarrow> Inr (m(q \<mapsto> P\<lparr>calc := c\<rparr>)))"

section \<open>Laminar regime\<close>

lemma v_axial_laminar:
  assumes "nu \<noteq> 0" and "d_pipe \<noteq> 0" and "v_mean * d_pipe / nu < 2300"
  shows "v_axial v_mean d_pipe r nu lambda_coeff n =
           Inr (Finite (2 * v_mean * (1 - 4 * (r / d_pipe)\<^sup>2)))"
  using assms by (simp add: v_axial_def Let_def)

text \<open>
  C5. In the laminar regime (Reynolds number \<open>v_mean * d_pipe / nu\<close> below 2300, with
  \<open>nu\<close> and \<open>d_pipe\<close> nonzero so that the quotients exist) \<open>v_axial\<close> returns
  \<open>2 * v_mean * (1 - (2 * r / d_pipe)\<^sup>2)\<close>; on the centerline \<open>r = 0\<close> this is
  \<open>2 * v_mean\<close> and at the wall \<open>r = d_pipe / 2\<close> it is 0.
\<close>

theorem C5_v_axial_laminar_profile:
  assumes "nu \<noteq> 0" and "d_pipe \<noteq> 0" and "v_mean * d_pipe / nu < 2300"
  shows "v_axial v_mean d_pipe r nu lambda_coeff n =
           Inr (Finite (2 * v_mean * (1 - (2 * r / d_pipe)\<^sup>2)))
       \<and> v_axial v_mean d_pipe 0 nu lambda_coeff n = Inr (Finite (2 * v_mean))
       \<and> v_axial v_mean d_pipe (d_pipe / 2) nu lambda_coeff n = Inr (Finite 0)"
proof -
  have sq: "(2 * r / d_pipe)\<^sup>2 = 4 * (r / d_pipe)\<^sup>2"
    by (simp add: power2_eq_square)
  have general: "v_axial v_mean d_pipe r nu lambda_coeff n =
      Inr (Finite (2 * v_mean * (1 - (2 * r / d_pipe)\<^sup>2)))"
    unfolding sq by (rule v_axial_laminar [OF assms])
  have centre: "v_axial v_mean d_pipe 0 nu lambda_coeff n = Inr (Finite (2 * v_mean))"
    using assms by (simp add: v_axial_laminar)
  have wall: "v_axial v_mean d_pipe (d_pipe / 2) nu lambda_coeff n = Inr (Finite 0)"
    using assms by (simp add: v_axial_laminar power2_eq_square)
  from general centre wall show ?thesis by blast
qed

theorem C5_v_axial_laminar_profile_witness:
  "v_axial 1 1 (1 / 4) 1 None (Some 6) = Inr (Finite (2 * 1 * (1 - (2 * (1 / 4) / 1)\<^sup>2)))
   \<and> v_axial 1 1 0 1 None (Some 6) = Inr (Finite (2 * 1))
   \<and> v_axial 1 1 (1 / 2) 1 None (Some 6) = Inr (Finite 0)"
  using C5_v_axial_laminar_profile [of 1 1 1 "1 / 4" None "Some 6"] by simp

text \<open>
  C9. Two calls of \<open>v_axial\<close> that agree on \<open>v_mean\<close>, \<open>d_pipe\<close>, \<open>r\<close> and \<open>nu\<close>
  and lie in the laminar regime give the same result whatever is passed for \<open>lambda_coeff\<close>
  and \<open>n\<close>.
\<close>

theorem C9_v_axial_laminar_ignores_lambda_n:
  assumes "nu \<noteq> 0" and "v_mean * d_pipe / nu < 2300"
  shows "v_axial v_mean d_pipe r nu lambda1 n1 = v_axial v_mean d_pipe r nu lambda2 n2"
  using assms by (simp add: v_axial_def Let_def)

theorem C9_v_axial_laminar_ignores_lambda_n_witness:
  "v_axial 1 1 (1 / 4) 1 None (Some 6) = v_axial 1 1 (1 / 4) 1 (Some (4 / 100)) (Some 0)
   \<and> v_axial 1 1 (1 / 4) 1 None (Some 6) = Inr (Finite (3 / 2))"
proof -
  have "v_axial 1 1 (1 / 4) 1 None (Some 6) = v_axial 1 1 (1 / 4) 1 (Some (4 / 100)) (Some 0)"
    using C9_v_axial_laminar_ignores_lambda_n [of 1 1 1 "1 / 4" None "Some 6" "Some (4 / 100)" "Some 0"]
    by simp
  moreover have "v_axial 1 1 (1 / 4) 1 None (Some 6) = Inr (Finite (3 / 2))"
    by (simp add: v_axial_def Let_def power2_eq_square)
  ultimately show ?thesis by simp
qed

section \<open>Turbulent regime\<close>

lemma turbulent_d_pipe_nonzero:
  assumes "\<not> v_mean * d_pipe / nu < (2300::real)"
  shows "d_pipe \<noteq> 0"
  using assms by auto

lemma v_axial_turbulent_n:
  assumes "nu \<noteq> 0" and "\<not> v_mean * d_pipe / nu < 2300" and "0 \<le> 1 - 2 * r / d_pipe"
    and "n = None \<or> n = Some 6"
  shows "v_axial v_mean d_pipe r nu None n =
           Inr (Finite (v_mean * ((1 / 6 + 2) * (1 / 6 + 1)) / 2 * (1 - 2 * r / d_pipe) powr (1 / 6)))"
proof -
  have d: "d_pipe \<noteq> 0"
    using assms(2) by (rule turbulent_d_pipe_nonzero)
  have pw: "float_pow (1 - 2 * r / d_pipe) (1 / 6) = Inr (Finite ((1 - 2 * r / d_pipe) powr (1 / 6)))"
    using assms(3) by (auto simp: float_pow_def)
  show ?thesis
    using assms(1,2,4) d by (auto simp: v_axial_def Let_def pw then_do_def)
qed

lemma v_axial_turbulent_lambda:
  assumes "nu \<noteq> 0" and "\<not> v_mean * d_pipe / nu < 2300" and "0 \<le> 1 - 2 * r / d_pipe"
    and "0 < l"
  shows "v_axial v_mean d_pipe r nu (Some l) n =
           Inr (Finite (v_mean * ((sqrt l + 2) * (sqrt l + 1)) / 2 * (1 - 2 * r / d_pipe) powr sqrt l))"
proof -
  have d: "d_pipe \<noteq> 0"
    using assms(2) by (rule turbulent_d_pipe_nonzero)
  have "sqrt l \<noteq> 0" "\<not> sqrt l < 0"
    using assms(4) by simp_all
  then have pw: "numpy_pow (1 - 2 * r / d_pipe) (sqrt l) = Finite ((1 - 2 * r / d_pipe) powr sqrt l)"
    using assms(3) by (auto simp: numpy_pow_def)
  show ?thesis
    using assms(1,2,4) d by (simp add: v_axial_def Let_def pw)
qed

text \<open>
  C6. In the turbulent regime (Reynolds number at least 2300), with no \<open>lambda_coeff\<close>
  and \<open>n = 6\<close> (also when \<open>n\<close> is left out), \<open>v_axial\<close> takes \<open>m = 1/6\<close> and returns
  \<open>v_mean * (m+2) * (m+1) / 2 * (1 - 2 * r / d_pipe)\<close> to the power \<open>m\<close>, for a radius
  inside the pipe (\<open>0 \<le> 1 - 2 * r / d_pipe\<close>, where the real power exists). On the
  centerline this is \<open>v_mean * (1/6+2) * (1/6+1) / 2\<close> and at the wall it is 0. With a
  positive \<open>lambda_coeff\<close> the exponent is its square root instead of \<open>1/n\<close>.
\<close>

theorem C6_v_axial_turbulent_profile:
  assumes "nu \<noteq> 0" and "\<not> v_mean * d_pipe / nu < 2300" and "0 \<le> 1 - 2 * r / d_pipe"
  shows "v_axial v_mean d_pipe r nu None (Some 6) =
           Inr (Finite (v_mean * ((1 / 6 + 2) * (1 / 6 + 1)) / 2 * (1 - 2 * r / d_pipe) powr (1 / 6)))
       \<and> v_axial v_mean d_pipe r nu None None = v_axial v_mean d_pipe r nu None (Some 6)
       \<and> v_axial v_mean d_pipe 0 nu None (Some 6) =
           Inr (Finite (v_mean * ((1 / 6 + 2) * (1 / 6 + 1)) / 2))
       \<and> v_axial v_mean d_pipe (d_pipe / 2) nu None (Some 6) = Inr (Finite 0)
       \<and> (0 < l \<longrightarrow> v_axial v_mean d_pipe r nu (Some l) n =
           Inr (Finite (v_mean * ((sqrt l + 2) * (sqrt l + 1)) / 2 * (1 - 2 * r / d_pipe) powr sqrt l)))"
proof -
  have d: "d_pipe \<noteq> 0"
    using assms(2) by (rule turbulent_d_pipe_nonzero)
  have general: "v_axial v_mean d_pipe r nu None (Some 6) =
      Inr (Finite (v_mean * ((1 / 6 + 2) * (1 / 6 + 1)) / 2 * (1 - 2 * r / d_pipe) powr (1 / 6)))"
    by (rule v_axial_turbulent_n [OF assms]) simp
  have "v_axial v_mean d_pipe r nu None None =
      Inr (Finite (v_mean * ((1 / 6 + 2) * (1 / 6 + 1)) / 2 * (1 - 2 * r / d_pipe) powr (1 / 6)))"
    by (rule v_axial_turbulent_n [OF assms]) simp
  with general have dflt:
    "v_axial v_mean d_pipe r nu None None = v_axial v_mean d_pipe r nu None (Some 6)"
    by simp
  have "v_axial v_mean d_pipe 0 nu None (Some 6) =
      Inr (Finite (v_mean * ((1 / 6 + 2) * (1 / 6 + 1)) / 2 * (1 - 2 * 0 / d_pipe) powr (1 / 6)))"
    using assms(1,2) by (intro v_axial_turbulent_n) simp_all
  then have centre: "v_axial v_mean d_pipe 0 nu None (Some 6) =
      Inr (Finite (v_mean * ((1 / 6 + 2) * (1 / 6 + 1)) / 2))"
    by simp
  have "v_axial v_mean d_pipe (d_pipe / 2) nu None (Some 6) =
      Inr (Finite (v_mean * ((1 / 6 + 2) * (1 / 6 + 1)) / 2 * (1 - 2 * (d_pipe / 2) / d_pipe) powr (1 / 6)))"
    using assms(1,2) d by (intro v_axial_turbulent_n) simp_all
  then have wall: "v_axial v_mean d_pipe (d_pipe / 2) nu None (Some 6) = Inr (Finite 0)"
    using d by simp
  have lam: "0 < l \<longrightarrow> v_axial v_mean d_pipe r nu (Some l) n =
      Inr (Finite (v_mean * ((sqrt l + 2) * (sqrt l + 1)) / 2 * (1 - 2 * r / d_pipe) powr sqrt l))"
    using v_axial_turbulent_lambda [OF assms] by blast
  from general dflt centre wall lam show ?thesis by blast
qed

theorem C6_v_axial_turbulent_profile_witness:
  "v_axial 1 1 0 (1 / 1000000) None (Some 6) = Inr (Finite (91 / 72))
   \<and> v_axial 1 1 (1 / 2) (1 / 1000000) None (Some 6) = Inr (Finite 0)
   \<and> v_axial 1 1 0 (1 / 1000000) (Some (4 / 100)) None =
       Inr (Finite ((sqrt (4 / 100) + 2) * (sqrt (4 / 100) + 1) / 2))"
  using C6_v_axial_turbulent_profile [of "1 / 1000000" 1 1 0 "4 / 100" None] by simp

section \<open>The viscosity of iron\<close>

lemma Iron_T_deform_value: "Iron_T_deform = 1736.15"
  by (simp add: Iron_T_deform_def Iron_T_liq_def Iron_T_sol_def C2K_def)

lemma exp3: "exp (3::real) < 28"
proof -
  have "exp (3::real) = exp 1 ^ 3"
    by (metis exp_of_nat_mult mult.right_neutral of_nat_numeral)
  also have "\<dots> \<le> 3 ^ 3"
    by (intro power_mono exp_le) simp
  finally show ?thesis by simp
qed

lemma Iron_mu_liquid_small:
  assumes "T > Iron_T_deform"
  shows "Iron_mu T p x < 1"
proof -
  have T: "T > 1736" using assms by (simp add: Iron_T_deform_value)
  then have "41400 / (8.3144 * T) < 3"
    by (simp add: field_simps)
  then have "exp (41400 / (8.3144 * T)) < 28"
    using exp3 by (smt (verit) exp_less_cancel_iff)
  then show ?thesis
    using assms by (simp add: Iron_mu_def)
qed

lemma Iron_mu_jump: "\<not> isCont (\<lambda>T. Iron_mu T p x) Iron_T_deform"
proof
  assume "isCont (\<lambda>T. Iron_mu T p x) Iron_T_deform"
  then have "\<forall>r>0. \<exists>s>0. \<forall>T. T \<noteq> Iron_T_deform \<and> norm (T - Iron_T_deform) < s
               \<longrightarrow> norm (Iron_mu T p x - Iron_mu Iron_T_deform p x) < r"
    by (simp add: isCont_def LIM_eq)
  then obtain s where s: "s > 0"
    and close: "\<And>T. T \<noteq> Iron_T_deform \<Longrightarrow> norm (T - Iron_T_deform) < s
               \<Longrightarrow> norm (Iron_mu T p x - Iron_mu Iron_T_deform p x) < 1"
    by (metis zero_less_one)
  define T where "T = Iron_T_deform + s / 2"
  have above: "T > Iron_T_deform"
    using s by (simp add: T_def)
  have "norm (T - Iron_T_deform) < s"
    using s by (simp add: T_def)
  with above have near: "norm (Iron_mu T p x - Iron_mu Iron_T_deform p x) < 1"
    using close [of T] by simp
  have solid: "Iron_mu Iron_T_deform p x = 10 ^ 20"
    by (simp add: Iron_mu_def)
  have "Iron_mu T p x < 1"
    using above by (rule Iron_mu_liquid_small)
  with near solid show False
    by simp
qed

text \<open>
  C10. For Iron the deformation temperature is \<open>T_sol + 0.66 * (T_liq - T_sol)\<close>. The
  viscosity rule returns the constant \<open>1e20\<close> at every temperature up to and including
  it and the Arrhenius expression \<open>0.3699e-3 * exp (41.4e3 / (8.3144 * T))\<close> above it,
  and it is not continuous there.
\<close>

theorem C10_Iron_mu_discontinuous:
  "Iron_T_deform = Iron_T_sol + 0.66 * (Iron_T_liq - Iron_T_sol)
   \<and> (T \<le> Iron_T_deform \<longrightarrow> Iron_mu T p x = 10 ^ 20)
   \<and> (T > Iron_T_deform \<longrightarrow> Iron_mu T p x = 0.0003699 * exp (41400 / (8.3144 * T)))
   \<and> \<not> isCont (\<lambda>T. Iron_mu T p x) Iron_T_deform"
  using Iron_mu_jump [of p x] by (simp add: Iron_mu_def Iron_T_deform_def)

theorem C10_Iron_mu_discontinuous_witness:
  "(1000::real) \<le> Iron_T_deform \<and> Iron_mu 1000 100000 0 = 10 ^ 20
   \<and> (2000::real) > Iron_T_deform
   \<and> Iron_mu 2000 100000 0 = 0.0003699 * exp (41400 / (8.3144 * 2000))"
  using C10_Iron_mu_discontinuous [of 1000 100000 0] C10_Iron_mu_discontinuous [of 2000 100000 0]
  by (simp add: Iron_T_deform_value)

section \<open>Table lookup: sample points and clamping\<close>

lemma increasing_tail: "increasing (a # xs) \<Longrightarrow> increasing xs"
  by (cases xs) simp_all

lemma increasing_head_le_nth:
  "increasing (a # xs) \<Longrightarrow> j < length (a # xs) \<Longrightarrow> a \<le> (a # xs) ! j"
proof (induction xs arbitrary: a j)
  case Nil
  then show ?case by simp
next
  case (Cons b xs)
  show ?case
  proof (cases j)
    case 0
    then show ?thesis by simp
  next
    case (Suc k)
    with Cons.prems have "b \<le> (b # xs) ! k"
      by (intro Cons.IH) simp_all
    with Cons.prems Suc show ?thesis by simp
  qed
qed

lemma increasing_head_le_last: "increasing (a # xs) \<Longrightarrow> a \<le> last (a # xs)"
proof -
  assume inc: "increasing (a # xs)"
  have "last (a # xs) = (a # xs) ! length xs"
    by (induction xs arbitrary: a) simp_all
  with increasing_head_le_nth [OF inc, of "length xs"] show ?thesis
    by simp
qed

lemma interp_from_sample:
  "increasing (x0 # map fst ps) \<Longrightarrow> i < length (x0 # map fst ps) \<Longrightarrow>
     interp_from ((x0 # map fst ps) ! i) x0 y0 ps = (y0 # map snd ps) ! i"
proof (induction ps arbitrary: x0 y0 i)
  case Nil
  then show ?case by simp
next
  case (Cons q ps)
  obtain x1 y1 where q: "q = (x1, y1)" by (cases q)
  show ?case
  proof (cases i)
    case 0
    with Cons.prems q show ?thesis by simp
  next
    case (Suc k)
    from Cons.prems q have inc: "increasing (x1 # map fst ps)" by simp
    from Cons.prems Suc have k: "k < length (x1 # map fst ps)" by simp
    from inc k have "x1 \<le> (x1 # map fst ps) ! k" by (rule increasing_head_le_nth)
    moreover have "interp_from ((x1 # map fst ps) ! k) x1 y1 ps = (y1 # map snd ps) ! k"
      using inc k by (rule Cons.IH)
    ultimately show ?thesis using q Suc by simp
  qed
qed

lemma interp_from_right:
  "increasing (x0 # map fst ps) \<Longrightarrow> last (x0 # map fst ps) < x \<Longrightarrow>
     interp_from x x0 y0 ps = last (y0 # map snd ps)"
proof (induction ps arbitrary: x0 y0)
  case Nil
  then show ?case by simp
next
  case (Cons q ps)
  obtain x1 y1 where q: "q = (x1, y1)" by (cases q)
  from Cons.prems q have inc: "increasing (x1 # map fst ps)" by simp
  from Cons.prems q have far: "last (x1 # map fst ps) < x" by simp
  from inc have "x1 \<le> last (x1 # map fst ps)" by (rule increasing_head_le_last)
  with far have "\<not> x < x1" by simp
  moreover have "interp_from x x1 y1 ps = last (y1 # map snd ps)"
    using inc far by (rule Cons.IH)
  ultimately show ?case using q by simp
qed

lemma zip_table:
  assumes "length xp = length fp" and "xp \<noteq> []"
  obtains x0 y0 ps where "zip xp fp = (x0, y0) # ps"
    and "xp = x0 # map fst ps" and "fp = y0 # map snd ps"
proof -
  from assms obtain x0 xs y0 ys where xp: "xp = x0 # xs" and fp: "fp = y0 # ys"
    and len: "length xs = length ys"
    by (cases xp; cases fp) auto
  show ?thesis
  proof
    show "zip xp fp = (x0, y0) # zip xs ys" by (simp add: xp fp)
    show "xp = x0 # map fst (zip xs ys)" using len by (simp add: xp)
    show "fp = y0 # map snd (zip xs ys)" using len by (simp add: fp)
  qed
qed

lemma interp_table_laws:
  assumes "increasing xp" and "length xp = length fp" and "xp \<noteq> []"
  shows "(\<forall>i<length xp. interp (xp ! i) xp fp = Inr (fp ! i))
       \<and> (x < hd xp \<longrightarrow> interp x xp fp = Inr (hd fp))
       \<and> (last xp < x \<longrightarrow> interp x xp fp = Inr (last fp))"
proof -
  from assms(2,3) obtain x0 y0 ps where z: "zip xp fp = (x0, y0) # ps"
    and xp: "xp = x0 # map fst ps" and fp: "fp = y0 # map snd ps"
    by (rule zip_table)
  have inc: "increasing (x0 # map fst ps)"
    using assms(1) xp by simp
  have sample: "interp (xp ! i) xp fp = Inr (fp ! i)" if "i < length xp" for i
  proof -
    from that xp have i: "i < length (x0 # map fst ps)" by simp
    from inc i have "x0 \<le> (x0 # map fst ps) ! i" by (rule increasing_head_le_nth)
    then have "\<not> xp ! i < x0" using xp by simp
    moreover have "interp_from (xp ! i) x0 y0 ps = fp ! i"
      using interp_from_sample [OF inc i, of y0] xp fp by simp
    ultimately show ?thesis
      using assms(2) z by (simp add: interp_def)
  qed
  have left: "interp x xp fp = Inr (hd fp)" if "x < hd xp"
  proof -
    from that xp have "x < x0" by simp
    moreover have "hd fp = y0" using fp by simp
    ultimately show ?thesis using assms(2) z by (simp add: interp_def)
  qed
  have right: "interp x xp fp = Inr (last fp)" if "last xp < x"
  proof -
    from that xp have far: "last (x0 # map fst ps) < x" by simp
    from inc have "x0 \<le> last (x0 # map fst ps)" by (rule increasing_head_le_last)
    with far have "\<not> x < x0" by simp
    moreover have "interp_from x x0 y0 ps = last fp"
      using interp_from_right [OF inc far, of y0] fp by simp
    ultimately show ?thesis using assms(2) z by (simp add: interp_def)
  qed
  from sample left right show ?thesis by blast
qed

lemma Air_c_p_table: "increasing Air_c_p_Tp" "length Air_c_p_Tp = length Air_c_p_Up"
  "Air_c_p_Tp \<noteq> []" "length Air_c_p_Tp = 35"
  by (simp_all add: Air_c_p_Tp_def Air_c_p_Up_def)

lemma Air_interpolated_c_p_laws:
  "(\<forall>i<35. Air_interpolated_c_p (Air_c_p_Tp ! i) p x = Inr (Air_c_p_Up ! i))
   \<and> (T < 100 \<longrightarrow> Air_interpolated_c_p T p x = Inr 1032)
   \<and> (3000 < T \<longrightarrow> Air_interpolated_c_p T p x = Inr 2726)"
proof -
  have "hd Air_c_p_Tp = 100" "last Air_c_p_Tp = 3000" "hd Air_c_p_Up = 1032" "last Air_c_p_Up = 2726"
    by (simp_all add: Air_c_p_Tp_def Air_c_p_Up_def)
  then show ?thesis
    using interp_table_laws [OF Air_c_p_table(1,2,3), of T] Air_c_p_table(4)
    by (simp add: Air_interpolated_c_p_def)
qed

text \<open>
  C7. A table lookup (\<open>np.interp\<close> over strictly increasing sample temperatures, as
  in \<open>Air_interpolated._c_p\<close> with the samples 100 .. 3000) returns the tabulated
  value at every sample point, the first tabulated value for every temperature below
  the first sample and the last tabulated value for every temperature above the last
  sample: nothing is extrapolated.
\<close>

theorem C7_table_lookup_exact_and_clamped:
  assumes "increasing xp" and "length xp = length fp" and "xp \<noteq> []"
  shows "(\<forall>i<length xp. interp (xp ! i) xp fp = Inr (fp ! i))
       \<and> (x < hd xp \<longrightarrow> interp x xp fp = Inr (hd fp))
       \<and> (last xp < x \<longrightarrow> interp x xp fp = Inr (last fp))"
  using assms by (rule interp_table_laws)

theorem C7_table_lookup_exact_and_clamped_witness:
  "increasing Air_c_p_Tp \<and> length Air_c_p_Tp = length Air_c_p_Up \<and> Air_c_p_Tp \<noteq> []
   \<and> Air_interpolated_c_p 300 100000 0 = Inr 1007
   \<and> Air_interpolated_c_p 50 100000 0 = Inr 1032
   \<and> Air_interpolated_c_p 4000 100000 0 = Inr 2726"
proof -
  have ends: "hd Air_c_p_Tp = 100" "last Air_c_p_Tp = 3000"
    "hd Air_c_p_Up = 1032" "last Air_c_p_Up = 2726"
    by (simp_all add: Air_c_p_Tp_def Air_c_p_Up_def)
  have at4: "Air_c_p_Tp ! 4 = 300" "Air_c_p_Up ! 4 = 1007" "(4::nat) < length Air_c_p_Tp"
    by (simp_all add: Air_c_p_Tp_def Air_c_p_Up_def)
  note low = C7_table_lookup_exact_and_clamped [OF Air_c_p_table(1,2,3), of 50]
  note high = C7_table_lookup_exact_and_clamped [OF Air_c_p_table(1,2,3), of 4000]
  from low at4 have "Air_interpolated_c_p 300 100000 0 = Inr 1007"
    unfolding Air_interpolated_c_p_def by metis
  moreover from low ends have "Air_interpolated_c_p 50 100000 0 = Inr 1032"
    by (simp add: Air_interpolated_c_p_def)
  moreover from high ends have "Air_interpolated_c_p 4000 100000 0 = Inr 2726"
    by (simp add: Air_interpolated_c_p_def)
  ultimately show ?thesis
    using Air_c_p_table(1,2,3) by simp
qed

section \<open>Evaluating properties\<close>

lemma then_do_Inr: "then_do (Inr v) f = f v"
  by (simp add: then_do_def)

lemma then_do_Inl: "then_do (Inl e) f = Inl e"
  by (simp add: then_do_def)

lemma py_ops_Some:
  "py_add (Some u) (Some v) = Inr (Some (u + v))"
  "py_sub (Some u) (Some v) = Inr (Some (u - v))"
  "py_mul (Some u) (Some v) = Inr (Some (u * v))"
  "v \<noteq> 0 \<Longrightarrow> py_div (Some u) (Some v) = Inr (Some (u / v))"
  by (simp_all add: py_add_def py_sub_def py_mul_def py_div_def)

lemma at_least_three: "3 \<le> fuel \<Longrightarrow> \<exists>k. fuel = Suc (Suc (Suc k))"
  by (cases fuel; cases "fuel - 1"; cases "fuel - 2") auto

subsection \<open>Constant and closed-form rules\<close>

lemma call_calc_Formula:
  "m q = Some P \<Longrightarrow> calc P = Formula f \<Longrightarrow> call_calc (Suc k) busy m q T p x = f T p x"
  by simp

lemma evaluate_Formula:
  "m q = Some P \<Longrightarrow> calc P = Formula f \<Longrightarrow> q \<notin> busy \<Longrightarrow>
     evaluate (Suc (Suc k)) busy m q (Some (T, p, x)) = f T p x"
  by simp

lemma evaluate_Formula_no_args:
  "m q = Some P \<Longrightarrow> calc P = Formula f \<Longrightarrow> q \<notin> busy \<Longrightarrow>
     evaluate (Suc (Suc k)) busy m q None = f (T_ref P) (p_ref P) (x_ref P)"
  by simp

lemma set_calc_lookup:
  assumes "set_calc m q c = Inr m'"
  shows "\<exists>P. m q = Some P \<and> m' q = Some (P\<lparr>calc := c\<rparr>)" and "q' \<noteq> q \<Longrightarrow> m' q' = m q'"
  using assms by (auto simp: set_calc_def split: option.splits)

subsection \<open>The default wiring of mu and nu\<close>

lemma default_viscosities_exhaust:
  assumes "m P_mu = Some Mp" and "calc Mp = Mu_default"
    and "m P_nu = Some Np" and "calc Np = Nu_default"
  shows "call_calc k busy m P_mu T p x = Inl RecursionError
       \<and> call_calc k busy m P_nu T p x = Inl RecursionError"
proof (induction k)
  case 0
  from assms show ?case by simp
next
  case (Suc k)
  from assms Suc show ?case by (simp add: then_do_Inl)
qed

lemma default_viscosities_evaluate:
  assumes "m P_mu = Some Mp" and "calc Mp = Mu_default"
    and "m P_nu = Some Np" and "calc Np = Nu_default"
  shows "evaluate fuel {} m P_mu (Some (T, p, x)) = Inl RecursionError"
    and "evaluate fuel {} m P_nu (Some (T, p, x)) = Inl RecursionError"
proof -
  note ex = default_viscosities_exhaust [OF assms]
  show "evaluate fuel {} m P_mu (Some (T, p, x)) = Inl RecursionError"
    using assms ex by (cases fuel) simp_all
  show "evaluate fuel {} m P_nu (Some (T, p, x)) = Inl RecursionError"
    using assms ex by (cases fuel) simp_all
qed

lemma Fluid_init_viscosities:
  "Fluid_init pt E0 P_mu = Some (Property pt None Mu_default)"
  "Fluid_init pt E0 P_nu = Some (Property pt None Nu_default)"
  "calc (Property pt r c) = c"
  by (simp_all add: Fluid_init_def Property_def)



lemma Matter_init_rho:
  "Matter_init pt E0 P_rho = Some R0 \<Longrightarrow>
     ref R0 = Some 1 \<and> T_ref R0 = C2K 20 \<and> p_ref R0 = atm
     \<and> calc R0 = (case E0 of None \<Rightarrow> Rho_thermal
                  | Some e \<Rightarrow> if \<bar>e\<bar> < 1 / 10 ^ 20 then Rho_thermal else Rho_thermal_elastic)"
  by (auto simp: Matter_init_def Property_def)


lemma rho_thermal_value:
  assumes "m P_rho = Some R" and "calc R = Rho_thermal" and "ref R = Some r0"
    and "evaluate k {P_rho} m P_beta None = Inr (Some b)"
    and "1 + (T - T_ref R) * b \<noteq> 0"
  shows "evaluate (Suc (Suc k)) {} m P_rho (Some (T, p, x)) =
           Inr (Some (r0 / (1 + (T - T_ref R) * b)))"
proof -
  have "evaluate (Suc (Suc k)) {} m P_rho (Some (T, p, x)) = call_calc (Suc k) {P_rho} m P_rho T p x"
    using assms(1,2) by simp
  also have "\<dots> = then_do (evaluate k {P_rho} m P_beta None) (\<lambda>b.
                    then_do (py_mul (Some (T - T_ref R)) b) (\<lambda>t.
                    then_do (py_add (Some 1) t) (\<lambda>d. py_div (ref R) d)))"
    using assms(1,2) by simp
  also have "\<dots> = py_div (Some r0) (Some (1 + (T - T_ref R) * b))"
    unfolding assms(3,4) then_do_Inr py_ops_Some ..
  also have "\<dots> = Inr (Some (r0 / (1 + (T - T_ref R) * b)))"
    using assms(5) by (rule py_ops_Some)
  finally show ?thesis .
qed


lemma rho_thermal_elastic_value:
  assumes "m P_rho = Some R" and "calc R = Rho_thermal_elastic" and "ref R = Some r0"
    and "evaluate k {P_rho} m P_beta None = Inr (Some b)"
    and "evaluate k {P_rho} m P_E None = Inr (Some ev)"
    and "1 + (T - T_ref R) * b \<noteq> 0" and "ev \<noteq> 0" and "1 - (p - p_ref R) / ev \<noteq> 0"
  shows "evaluate (Suc (Suc k)) {} m P_rho (Some (T, p, x)) =
           Inr (Some (r0 / (1 + (T - T_ref R) * b) / (1 - (p - p_ref R) / ev)))"
proof -
  have "evaluate (Suc (Suc k)) {} m P_rho (Some (T, p, x)) = call_calc (Suc k) {P_rho} m P_rho T p x"
    using assms(1,2) by simp
  also have "\<dots> = then_do (evaluate k {P_rho} m P_beta None) (\<lambda>b.
                    then_do (py_mul (Some (T - T_ref R)) b) (\<lambda>t.
                    then_do (py_add (Some 1) t) (\<lambda>d.
                    then_do (py_div (ref R) d) (\<lambda>r1.
                    then_do (evaluate k {P_rho} m P_E None) (\<lambda>e.
                    then_do (py_div (Some (p - p_ref R)) e) (\<lambda>s.
                    then_do (py_sub (Some 1) s) (\<lambda>d2. py_div r1 d2)))))))"
    using assms(1,2) by simp
  also have "\<dots> = then_do (py_div (Some r0) (Some (1 + (T - T_ref R) * b))) (\<lambda>r1.
                    then_do (py_div (Some (p - p_ref R)) (Some ev)) (\<lambda>s.
                    then_do (py_sub (Some 1) s) (\<lambda>d2. py_div r1 d2)))"
    unfolding assms(3,4,5) then_do_Inr py_ops_Some ..
  also have "\<dots> = py_div (Some (r0 / (1 + (T - T_ref R) * b))) (Some (1 - (p - p_ref R) / ev))"
    unfolding py_ops_Some(4) [OF assms(6)] py_ops_Some(4) [OF assms(7)] then_do_Inr py_ops_Some ..
  also have "\<dots> = Inr (Some (r0 / (1 + (T - T_ref R) * b) / (1 - (p - p_ref R) / ev)))"
    using assms(8) by (rule py_ops_Some)
  finally show ?thesis .
qed

lemma evaluate_Unset:
  "m q = Some P \<Longrightarrow> calc P = Unset \<Longrightarrow> evaluate (Suc k) busy m q args = Inl PropertyNotDefined"
  by simp

lemma Matter_init_unset:
  "Matter_init pt E0 P_c_p = Some (Property pt None Unset)"
  "Matter_init pt E0 P_lambda = Some (Property pt None Unset)"
  "Matter_init pt E0 P_beta = Some (Property pt None Unset)"
  "Matter_init pt E0 P_E = Some (Property pt None Unset)"
  by (simp_all add: Matter_init_def)

lemma override_rho_mu:
  assumes "m P_rho = Some Rp" and "m P_mu = Some Mp"
  shows "then_do (set_calc m P_rho cR) (\<lambda>m1. then_do (set_calc m1 P_mu cM) f) =
           f (m(P_rho \<mapsto> Rp\<lparr>calc := cR\<rparr>, P_mu \<mapsto> Mp\<lparr>calc := cM\<rparr>))"
  using assms by (simp add: set_calc_def then_do_Inr)

lemma nu_default_value:
  assumes "m P_nu = Some N" and "calc N = Nu_default"
    and "m P_mu = Some Mp" and "calc Mp = Formula (\<lambda>T p x. Inr (Some M))"
    and "m P_rho = Some Rp" and "calc Rp = Formula (\<lambda>T p x. Inr (Some R))"
    and "R \<noteq> 0"
  shows "evaluate (Suc (Suc (Suc k))) {} m P_nu (Some (T, p, x)) = Inr (Some (M / R))"
proof -
  have "evaluate (Suc (Suc (Suc k))) {} m P_nu (Some (T, p, x)) =
          call_calc (Suc (Suc k)) {P_nu} m P_nu T p x"
    using assms(1,2) by simp
  also have "\<dots> = then_do (call_calc (Suc k) {P_nu} m P_mu T p x) (\<lambda>u.
                    then_do (call_calc (Suc k) {P_nu} m P_rho T p x) (\<lambda>r. py_div u r))"
    using assms(1,2) by simp
  also have "\<dots> = py_div (Some M) (Some R)"
    using assms(3-6) by (simp add: then_do_Inr)
  also have "\<dots> = Inr (Some (M / R))"
    using assms(7) by (rule py_ops_Some)
  finally show ?thesis .
qed

lemma Fluid_init_rho:
  "Fluid_init pt E0 P_rho = Matter_init pt E0 P_rho" "Matter_init pt E0 P_rho \<noteq> None"
  by (simp_all add: Fluid_init_def Matter_init_def)

section \<open>Late binding of the default rules\<close>

text \<open>
  C1. On every Fluid whose \<open>nu\<close> still has its default rule, after \<open>rho.calc\<close> is
  replaced by a constant function returning \<open>R\<close> (nonzero) and \<open>mu.calc\<close> by a constant
  function returning \<open>M\<close>, evaluating \<open>nu\<close> at any \<open>(T, p, x)\<close> returns exactly
  \<open>M / R\<close>, the quotient of what \<open>mu\<close> and \<open>rho\<close> evaluate to: the default rule of
  \<open>nu\<close> reads the rules that are current when it is called. The same holds when
  \<open>nu.calc\<close> is called directly. Three frames are enough.
\<close>

theorem C1_nu_reads_current_rules:
  assumes "m P_nu = Some N" and "calc N = Nu_default"
    and "m P_rho = Some Rp" and "m P_mu = Some Mp"
    and "R \<noteq> 0" and "3 \<le> fuel"
  shows "then_do (set_calc m P_rho (Formula (\<lambda>T p x. Inr (Some R)))) (\<lambda>m1.
         then_do (set_calc m1 P_mu (Formula (\<lambda>T p x. Inr (Some M)))) (\<lambda>m2.
           evaluate fuel {} m2 P_nu (Some (T, p, x)))) = Inr (Some (M / R))
       \<and> then_do (set_calc m P_rho (Formula (\<lambda>T p x. Inr (Some R)))) (\<lambda>m1.
         then_do (set_calc m1 P_mu (Formula (\<lambda>T p x. Inr (Some M)))) (\<lambda>m2.
           evaluate fuel {} m2 P_mu (Some (T, p, x)))) = Inr (Some M)
       \<and> then_do (set_calc m P_rho (Formula (\<lambda>T p x. Inr (Some R)))) (\<lambda>m1.
         then_do (set_calc m1 P_mu (Formula (\<lambda>T p x. Inr (Some M)))) (\<lambda>m2.
           evaluate fuel {} m2 P_rho (Some (T, p, x)))) = Inr (Some R)
       \<and> then_do (set_calc m P_rho (Formula (\<lambda>T p x. Inr (Some R)))) (\<lambda>m1.
         then_do (set_calc m1 P_mu (Formula (\<lambda>T p x. Inr (Some M)))) (\<lambda>m2.
           call_calc fuel busy m2 P_nu T p x)) = Inr (Some (M / R))"
proof -
  define m2 where "m2 = m(P_rho \<mapsto> Rp\<lparr>calc := Formula (\<lambda>T p x. Inr (Some R))\<rparr>,
                         P_mu \<mapsto> Mp\<lparr>calc := Formula (\<lambda>T p x. Inr (Some M))\<rparr>)"
  from assms(6) obtain k where fuel: "fuel = Suc (Suc (Suc k))"
    using at_least_three by blast
  have nu: "m2 P_nu = Some N"
    using assms(1) by (simp add: m2_def)
  have mu: "m2 P_mu = Some (Mp\<lparr>calc := Formula (\<lambda>T p x. Inr (Some M))\<rparr>)"
    by (simp add: m2_def)
  have rho: "m2 P_rho = Some (Rp\<lparr>calc := Formula (\<lambda>T p x. Inr (Some R))\<rparr>)"
    by (simp add: m2_def)
  have "evaluate fuel {} m2 P_nu (Some (T, p, x)) = Inr (Some (M / R))"
    unfolding fuel by (rule nu_default_value [OF nu assms(2) mu _ rho _ assms(5)]) simp_all
  moreover have "evaluate fuel {} m2 P_mu (Some (T, p, x)) = Inr (Some M)"
    unfolding fuel using mu by simp
  moreover have "evaluate fuel {} m2 P_rho (Some (T, p, x)) = Inr (Some R)"
    unfolding fuel using rho by simp
  moreover have "call_calc fuel busy m2 P_nu T p x = Inr (Some (M / R))"
    unfolding fuel using nu assms(2,5) mu rho by (simp add: then_do_Inr py_ops_Some)
  ultimately show ?thesis
    unfolding override_rho_mu [OF assms(3,4)] m2_def by blast
qed

theorem C1_nu_reads_current_rules_witness:
  "then_do (set_calc (Fluid_init (C2K 15, atm, 0) None) P_rho (Formula (\<lambda>T p x. Inr (Some 2)))) (\<lambda>m1.
   then_do (set_calc m1 P_mu (Formula (\<lambda>T p x. Inr (Some 6)))) (\<lambda>m2.
     evaluate 1000 {} m2 P_nu (Some (300, atm, 0)))) = Inr (Some 3)"
proof -
  obtain Rp where rho: "Fluid_init (C2K 15, atm, 0) None P_rho = Some Rp"
    using Fluid_init_rho [of "(C2K 15, atm, 0)" None] by auto
  note C1_nu_reads_current_rules
    [where m = "Fluid_init (C2K 15, atm, 0) None" and R = 2 and M = 6 and fuel = 1000
       and T = 300 and p = atm and x = 0,
     OF Fluid_init_viscosities(2) Fluid_init_viscosities(3) rho Fluid_init_viscosities(1)]
  then show ?thesis by simp
qed

section \<open>The circular default rules of mu and nu\<close>

text \<open>
  C4, as the code has it. On every Fluid on which neither \<open>mu.calc\<close> nor \<open>nu.calc\<close>
  has been overridden, evaluating \<open>mu\<close> or \<open>nu\<close> at any \<open>(T, p, x)\<close> returns no value
  however many frames the interpreter allows: the two default rules call each other's
  \<open>calc\<close> directly, nothing detects the cycle, and the evaluation ends with Python's
  \<open>RecursionError\<close> when the recursion limit is reached.
\<close>

theorem C4_default_mu_nu_exhaust_the_stack:
  assumes "m P_mu = Some Mp" and "calc Mp = Mu_default"
    and "m P_nu = Some Np" and "calc Np = Nu_default"
  shows "evaluate fuel {} m P_mu (Some (T, p, x)) = Inl RecursionError
       \<and> evaluate fuel {} m P_nu (Some (T, p, x)) = Inl RecursionError
       \<and> call_calc fuel busy m P_mu T p x = Inl RecursionError
       \<and> call_calc fuel busy m P_nu T p x = Inl RecursionError"
  using default_viscosities_evaluate [OF assms, of fuel T p x]
    default_viscosities_exhaust [OF assms, of fuel busy T p x]
  by simp

theorem C4_default_mu_nu_exhaust_the_stack_witness:
  "evaluate 1000 {} (Fluid_init (C2K 15, atm, 0) None) P_mu (Some (300, atm, 0)) = Inl RecursionError
   \<and> evaluate 1000 {} (Fluid_init (C2K 15, atm, 0) None) P_nu (Some (300, atm, 0)) = Inl RecursionError"
  using C4_default_mu_nu_exhaust_the_stack
    [where m = "Fluid_init (C2K 15, atm, 0) None" and fuel = 1000 and T = 300 and p = atm and x = 0,
     OF Fluid_init_viscosities(1) Fluid_init_viscosities(3)
        Fluid_init_viscosities(2) Fluid_init_viscosities(3)]
  by simp

text \<open>
  C4 as stated fails: on a newly constructed Fluid the evaluation of \<open>mu\<close> and of
  \<open>nu\<close> does not end with \<open>CircularEvaluation\<close>.
\<close>

theorem C4_no_CircularEvaluation_counterexample:
  "evaluate 1000 {} (Fluid_init (C2K 15, atm, 0) None) P_mu (Some (300, atm, 0))
     \<noteq> Inl CircularEvaluation
   \<and> evaluate 1000 {} (Fluid_init (C2K 15, atm, 0) None) P_nu (Some (300, atm, 0))
     \<noteq> Inl CircularEvaluation"
  using default_viscosities_evaluate
    [where m = "Fluid_init (C2K 15, atm, 0) None" and fuel = 1000 and T = 300 and p = atm and x = 0,
     OF Fluid_init_viscosities(1) Fluid_init_viscosities(3)
        Fluid_init_viscosities(2) Fluid_init_viscosities(3)]
  by simp

section \<open>Properties without a rule\<close>

text \<open>
  C8. Evaluating a property whose \<open>calc\<close> was never assigned, such as \<open>c_p\<close> or
  \<open>lambda_\<close> of a bare Matter, at any \<open>(T, p, x)\<close> fails with \<open>PropertyNotDefined\<close>; it
  does not return zero.
\<close>

theorem C8_unset_rule_is_PropertyNotDefined:
  assumes "m q = Some P" and "calc P = Unset"
  shows "evaluate (Suc k) busy m q args = Inl PropertyNotDefined
       \<and> evaluate (Suc k) busy m q args \<noteq> Inr (Some 0)"
  using assms by simp

theorem C8_unset_rule_is_PropertyNotDefined_witness:
  "evaluate 1000 {} (Matter_init (C2K 15, atm, 0) None) P_c_p (Some (300, atm, 0))
     = Inl PropertyNotDefined
   \<and> evaluate 1000 {} (Matter_init (C2K 15, atm, 0) None) P_lambda (Some (300, atm, 0))
     = Inl PropertyNotDefined"
proof -
  have fuel: "(1000::nat) = Suc 999" by simp
  have unset: "calc (Property (C2K 15, atm, 0) None Unset) = Unset"
    by (simp add: Property_def)
  show ?thesis
    unfolding fuel
    using C8_unset_rule_is_PropertyNotDefined
        [where m = "Matter_init (C2K 15, atm, 0) None" and q = P_c_p and k = 999 and busy = "{}"
           and args = "Some (300, atm, 0)", OF Matter_init_unset(1) unset]
      C8_unset_rule_is_PropertyNotDefined
        [where m = "Matter_init (C2K 15, atm, 0) None" and q = P_lambda and k = 999 and busy = "{}"
           and args = "Some (300, atm, 0)", OF Matter_init_unset(2) unset]
    by blast
qed

section \<open>The default density rule\<close>

lemma Matter_init_rho_thermal:
  assumes "E0 = None \<or> (\<exists>e. E0 = Some e \<and> \<bar>e\<bar> < 1 / 10 ^ 20)"
    and "Matter_init pt E0 P_rho = Some R0"
  shows "calc R0 = Rho_thermal"
  using assms Matter_init_rho [OF assms(2)] by auto

lemma Matter_init_rho_elastic:
  assumes "E0 = Some e0" and "\<not> \<bar>e0\<bar> < 1 / 10 ^ 20"
    and "Matter_init pt E0 P_rho = Some R0"
  shows "calc R0 = Rho_thermal_elastic"
  using assms Matter_init_rho [OF assms(3)] by auto

lemma Matter_init_rho_value:
  "Matter_init pt E0 P_rho =
     Some ((Property pt (Some 1)
             (case E0 of None \<Rightarrow> Rho_thermal
              | Some e \<Rightarrow> if \<bar>e\<bar> < 1 / 10 ^ 20 then Rho_thermal else Rho_thermal_elastic))
           \<lparr>T_ref := C2K 20, p_ref := atm\<rparr>)"
  by (simp add: Matter_init_def)

lemma small_fuel: "(4::nat) = Suc (Suc 2)" "(2::nat) = Suc (Suc 0)"
  "(1000::nat) = Suc (Suc 998)" "(998::nat) = Suc (Suc 996)"
  by simp_all

text \<open>
  C2. On every Matter whose constructor found \<open>E\<close> unset (\<open>None\<close>) or negligible
  (\<open>|E| < 1e-20\<close>) and whose density rule is still the one the constructor chose, for
  every \<open>T\<close>, \<open>p\<close>, \<open>x\<close> at which \<open>beta()\<close> returns a number \<open>b\<close> (and the
  denominator is not zero), evaluating \<open>rho\<close> returns
  \<open>rho.ref / (1 + (T - rho.T.ref) * b)\<close>, and the result is the same for every \<open>p\<close>.
\<close>

theorem C2_rho_default_without_E:
  assumes "E0 = None \<or> (\<exists>e. E0 = Some e \<and> \<bar>e\<bar> < 1 / 10 ^ 20)"
    and "Matter_init pt E0 P_rho = Some R0"
    and "m P_rho = Some R" and "calc R = calc R0" and "ref R = Some r0"
    and "evaluate k {P_rho} m P_beta None = Inr (Some b)"
    and "1 + (T - T_ref R) * b \<noteq> 0"
  shows "evaluate (Suc (Suc k)) {} m P_rho (Some (T, p, x)) =
           Inr (Some (r0 / (1 + (T - T_ref R) * b)))
       \<and> evaluate (Suc (Suc k)) {} m P_rho (Some (T, p', x)) =
           evaluate (Suc (Suc k)) {} m P_rho (Some (T, p, x))"
proof -
  have rule: "calc R = Rho_thermal"
    using Matter_init_rho_thermal [OF assms(1,2)] assms(4) by simp
  have "evaluate (Suc (Suc k)) {} m P_rho (Some (T, q, x)) =
          Inr (Some (r0 / (1 + (T - T_ref R) * b)))" for q
    by (rule rho_thermal_value [OF assms(3) rule assms(5,6,7)])
  then show ?thesis by simp
qed

theorem C2_rho_default_without_E_witness:
  "evaluate 4 {}
     ((Matter_init (C2K 15, atm, 0) None)
        (P_beta \<mapsto> Property (C2K 15, atm, 0) None (Formula (\<lambda>T p x. Inr (Some (1 / 1000))))))
     P_rho (Some (300, atm, 0)) = Inr (Some (1 / (1 + (300 - C2K 20) * (1 / 1000))))
   \<and> evaluate 4 {}
     ((Matter_init (C2K 15, atm, 0) None)
        (P_beta \<mapsto> Property (C2K 15, atm, 0) None (Formula (\<lambda>T p x. Inr (Some (1 / 1000))))))
     P_rho (Some (300, atm + 100000, 0)) =
     evaluate 4 {}
     ((Matter_init (C2K 15, atm, 0) None)
        (P_beta \<mapsto> Property (C2K 15, atm, 0) None (Formula (\<lambda>T p x. Inr (Some (1 / 1000))))))
     P_rho (Some (300, atm, 0))"
proof -
  define pt :: "real \<times> real \<times> real" where "pt = (C2K 15, atm, 0)"
  define B where "B = Property pt None (Formula (\<lambda>T p x. Inr (Some (1 / 1000))))"
  define R0 where "R0 = (Property pt (Some 1) Rho_thermal)\<lparr>T_ref := C2K 20, p_ref := atm\<rparr>"
  define m where "m = (Matter_init pt None)(P_beta \<mapsto> B)"
  have init: "Matter_init pt None P_rho = Some R0"
    by (simp add: Matter_init_rho_value R0_def)
  have rho: "m P_rho = Some R0"
    using init by (simp add: m_def)
  have R0: "ref R0 = Some 1" "T_ref R0 = C2K 20"
    by (simp_all add: R0_def Property_def)
  have beta: "evaluate 2 {P_rho} m P_beta None = Inr (Some (1 / 1000))"
    unfolding small_fuel by (simp add: m_def B_def Property_def)
  have nz: "1 + (300 - T_ref R0) * (1 / 1000) \<noteq> 0"
    by (simp add: R0 C2K_def)
  note inst = C2_rho_default_without_E [of None pt R0 m R0 1 2 "1 / 1000" 300 atm 0 "atm + 100000",
      OF disjI1 [OF refl] init rho refl R0(1) beta nz]
  then show ?thesis
    unfolding small_fuel(1) R0(2) m_def B_def pt_def .
qed

text \<open>
  C3, as the code has it. On every Matter whose constructor found a value of \<open>E\<close> that
  is not negligible, the density rule divides the thermal term by
  \<open>1 - (p - rho.p.ref) / E()\<close> as well, with \<open>E()\<close> read when the rule is called; for a
  nonzero reference density and \<open>p\<close> other than \<open>rho.p.ref\<close> (for \<open>E() = 2.2e9\<close> and
  \<open>p = atm() + 1e5\<close>, say) the result differs from the thermal term alone.
\<close>

theorem C3_rho_default_with_E_at_construction:
  assumes "E0 = Some e0" and "\<not> \<bar>e0\<bar> < 1 / 10 ^ 20"
    and "Matter_init pt E0 P_rho = Some R0"
    and "m P_rho = Some R" and "calc R = calc R0" and "ref R = Some r0"
    and "evaluate k {P_rho} m P_beta None = Inr (Some b)"
    and "evaluate k {P_rho} m P_E None = Inr (Some ev)"
    and "1 + (T - T_ref R) * b \<noteq> 0" and "ev \<noteq> 0" and "1 - (p - p_ref R) / ev \<noteq> 0"
  shows "evaluate (Suc (Suc k)) {} m P_rho (Some (T, p, x)) =
           Inr (Some (r0 / (1 + (T - T_ref R) * b) / (1 - (p - p_ref R) / ev)))
       \<and> (r0 \<noteq> 0 \<and> p \<noteq> p_ref R \<longrightarrow>
            evaluate (Suc (Suc k)) {} m P_rho (Some (T, p, x)) \<noteq>
              Inr (Some (r0 / (1 + (T - T_ref R) * b))))"
proof -
  have rule: "calc R = Rho_thermal_elastic"
    using Matter_init_rho_elastic [OF assms(1,2,3)] assms(5) by simp
  have val: "evaluate (Suc (Suc k)) {} m P_rho (Some (T, p, x)) =
          Inr (Some (r0 / (1 + (T - T_ref R) * b) / (1 - (p - p_ref R) / ev)))"
    by (rule rho_thermal_elastic_value [OF assms(4) rule assms(6,7,8,9,10,11)])
  have "r0 / (1 + (T - T_ref R) * b) / (1 - (p - p_ref R) / ev) \<noteq> r0 / (1 + (T - T_ref R) * b)"
    if "r0 \<noteq> 0" and "p \<noteq> p_ref R"
  proof -
    define a where "a = r0 / (1 + (T - T_ref R) * b)"
    define d where "d = 1 - (p - p_ref R) / ev"
    have a: "a \<noteq> 0" using that(1) assms(9) by (simp add: a_def)
    have "(p - p_ref R) / ev \<noteq> 0" using that(2) assms(10) by simp
    then have d1: "d \<noteq> 1" by (simp add: d_def)
    have d0: "d \<noteq> 0" using assms(11) by (simp add: d_def)
    have "a / d \<noteq> a"
    proof
      assume "a / d = a"
      then have "a = a * d" using d0 by (simp add: field_simps)
      then have "a * (1 - d) = 0" by (simp add: algebra_simps)
      with a d1 show False by simp
    qed
    then show ?thesis by (simp add: a_def d_def)
  qed
  with val show ?thesis by simp
qed


theorem C3_rho_default_with_E_at_construction_witness:
  "evaluate 4 {}
     ((Matter_init (C2K 15, atm, 0) (Some 2200000000))
        (P_beta \<mapsto> Property (C2K 15, atm, 0) None (Formula (\<lambda>T p x. Inr (Some (1 / 1000)))),
         P_E \<mapsto> Property (C2K 15, atm, 0) None (Formula (\<lambda>T p x. Inr (Some 2200000000)))))
     P_rho (Some (300, atm + 100000, 0)) =
     Inr (Some (1 / (1 + (300 - C2K 20) * (1 / 1000)) / (1 - (atm + 100000 - atm) / 2200000000)))
   \<and> evaluate 4 {}
     ((Matter_init (C2K 15, atm, 0) (Some 2200000000))
        (P_beta \<mapsto> Property (C2K 15, atm, 0) None (Formula (\<lambda>T p x. Inr (Some (1 / 1000)))),
         P_E \<mapsto> Property (C2K 15, atm, 0) None (Formula (\<lambda>T p x. Inr (Some 2200000000)))))
     P_rho (Some (300, atm + 100000, 0)) \<noteq>
     Inr (Some (1 / (1 + (300 - C2K 20) * (1 / 1000))))"
proof -
  define pt :: "real \<times> real \<times> real" where "pt = (C2K 15, atm, 0)"
  define B where "B = Property pt None (Formula (\<lambda>T p x. Inr (Some (1 / 1000))))"
  define E where "E = Property pt None (Formula (\<lambda>T p x. Inr (Some 2200000000)))"
  define R0 where
    "R0 = (Property pt (Some 1) Rho_thermal_elastic)\<lparr>T_ref := C2K 20, p_ref := atm\<rparr>"
  define m where "m = (Matter_init pt (Some 2200000000))(P_beta \<mapsto> B, P_E \<mapsto> E)"
  have init: "Matter_init pt (Some 2200000000) P_rho = Some R0"
    by (simp add: Matter_init_rho_value R0_def)
  have rho: "m P_rho = Some R0"
    using init by (simp add: m_def)
  have R0: "ref R0 = Some 1" "T_ref R0 = C2K 20" "p_ref R0 = atm"
    by (simp_all add: R0_def Property_def)
  have beta: "evaluate 2 {P_rho} m P_beta None = Inr (Some (1 / 1000))"
    unfolding small_fuel by (simp add: m_def B_def Property_def)
  have E: "evaluate 2 {P_rho} m P_E None = Inr (Some 2200000000)"
    unfolding small_fuel by (simp add: m_def E_def Property_def)
  have big: "\<not> \<bar>2200000000::real\<bar> < 1 / 10 ^ 20"
    by simp
  have nz: "1 + (300 - T_ref R0) * (1 / 1000) \<noteq> 0"
    by (simp add: R0 C2K_def)
  have nz2: "1 - (atm + 100000 - p_ref R0) / 2200000000 \<noteq> 0"
    by (simp add: R0)
  have ev: "(2200000000::real) \<noteq> 0"
    by simp
  have off: "(1::real) \<noteq> 0 \<and> atm + 100000 \<noteq> p_ref R0"
    by (simp add: R0)
  note inst = C3_rho_default_with_E_at_construction
    [of "Some 2200000000" 2200000000 pt R0 m R0 1 2 "1 / 1000" 2200000000 300 "atm + 100000" 0,
      OF refl big init rho refl R0(1) beta E nz ev nz2]
  from inst off have
    "evaluate (Suc (Suc 2)) {} m P_rho (Some (300, atm + 100000, 0)) =
       Inr (Some (1 / (1 + (300 - T_ref R0) * (1 / 1000)) / (1 - (atm + 100000 - p_ref R0) / 2200000000)))
     \<and> evaluate (Suc (Suc 2)) {} m P_rho (Some (300, atm + 100000, 0)) \<noteq>
       Inr (Some (1 / (1 + (300 - T_ref R0) * (1 / 1000))))"
    by blast
  then show ?thesis
    unfolding small_fuel(1) R0(2,3) m_def B_def E_def pt_def .
qed

text \<open>
  C3 as stated fails: a Matter constructed while \<open>E\<close> had no value keeps the rule
  without the pressure term. After \<open>beta.calc\<close> and \<open>E.calc\<close> are assigned, with \<open>E\<close>
  evaluating to \<open>2.2e9\<close>, the density at \<open>p = atm() + 1e5\<close> is still the thermal term.
\<close>

theorem C3_E_set_after_construction_counterexample:
  "then_do (set_calc (Matter_init (C2K 15, atm, 0) None) P_beta
              (Formula (\<lambda>T p x. Inr (Some (1 / 1000))))) (\<lambda>m1.
   then_do (set_calc m1 P_E (Formula (\<lambda>T p x. Inr (Some 2200000000)))) (\<lambda>m2.
     evaluate 1000 {} m2 P_E None)) = Inr (Some 2200000000)
   \<and> then_do (set_calc (Matter_init (C2K 15, atm, 0) None) P_beta
              (Formula (\<lambda>T p x. Inr (Some (1 / 1000))))) (\<lambda>m1.
   then_do (set_calc m1 P_E (Formula (\<lambda>T p x. Inr (Some 2200000000)))) (\<lambda>m2.
     evaluate 1000 {} m2 P_rho (Some (300, atm + 100000, 0)))) =
     Inr (Some (1 / (1 + (300 - C2K 20) * (1 / 1000))))"
proof -
  define pt :: "real \<times> real \<times> real" where "pt = (C2K 15, atm, 0)"
  define B where "B = (Property pt None Unset)\<lparr>calc := Formula (\<lambda>T p x. Inr (Some (1 / 1000)))\<rparr>"
  define E where "E = (Property pt None Unset)\<lparr>calc := Formula (\<lambda>T p x. Inr (Some 2200000000))\<rparr>"
  define R0 where "R0 = (Property pt (Some 1) Rho_thermal)\<lparr>T_ref := C2K 20, p_ref := atm\<rparr>"
  define m where "m = (Matter_init pt None)(P_beta \<mapsto> B, P_E \<mapsto> E)"
  have chain: "then_do (set_calc (Matter_init pt None) P_beta
              (Formula (\<lambda>T p x. Inr (Some (1 / 1000))))) (\<lambda>m1.
      then_do (set_calc m1 P_E (Formula (\<lambda>T p x. Inr (Some 2200000000)))) f) = f m" for f
    by (simp add: set_calc_def Matter_init_unset then_do_Inr m_def B_def E_def)
  have rho: "m P_rho = Some R0"
    by (simp add: m_def Matter_init_rho_value R0_def)
  have R0: "ref R0 = Some 1" "T_ref R0 = C2K 20" "calc R0 = Rho_thermal"
    by (simp_all add: R0_def Property_def)
  have mB: "m P_beta = Some B" and mE: "m P_E = Some E"
    by (simp_all add: m_def)
  have cB: "calc B = Formula (\<lambda>T p x. Inr (Some (1 / 1000)))"
    and cE: "calc E = Formula (\<lambda>T p x. Inr (Some 2200000000))"
    by (simp_all add: B_def E_def)
  have beta: "evaluate 998 {P_rho} m P_beta None = Inr (Some (1 / 1000))"
    unfolding small_fuel(4) using evaluate_Formula_no_args
      [where m = m and q = P_beta and P = B and f = "\<lambda>T p x. Inr (Some (1 / 1000))"
         and busy = "{P_rho}" and k = 996, OF mB cB]
    by simp
  have E: "evaluate 1000 {} m P_E None = Inr (Some 2200000000)"
    unfolding small_fuel(3) using evaluate_Formula_no_args
      [where m = m and q = P_E and P = E and f = "\<lambda>T p x. Inr (Some 2200000000)"
         and busy = "{}" and k = 998, OF mE cE]
    by simp
  have nz: "1 + (300 - T_ref R0) * (1 / 1000) \<noteq> 0"
    by (simp add: R0 C2K_def)
  have val: "evaluate 1000 {} m P_rho (Some (300, atm + 100000, 0)) =
      Inr (Some (1 / (1 + (300 - C2K 20) * (1 / 1000))))"
    unfolding small_fuel(3) R0(2) [symmetric]
    by (rule rho_thermal_value [OF rho R0(3) R0(1) beta nz])
  have "then_do (set_calc (Matter_init pt None) P_beta
              (Formula (\<lambda>T p x. Inr (Some (1 / 1000))))) (\<lambda>m1.
      then_do (set_calc m1 P_E (Formula (\<lambda>T p x. Inr (Some 2200000000)))) (\<lambda>m2.
        evaluate 1000 {} m2 P_E None)) = Inr (Some 2200000000)
    \<and> then_do (set_calc (Matter_init pt None) P_beta
              (Formula (\<lambda>T p x. Inr (Some (1 / 1000))))) (\<lambda>m1.
      then_do (set_calc m1 P_E (Formula (\<lambda>T p x. Inr (Some 2200000000)))) (\<lambda>m2.
        evaluate 1000 {} m2 P_rho (Some (300, atm + 100000, 0)))) =
        Inr (Some (1 / (1 + (300 - C2K 20) * (1 / 1000))))"
    unfolding chain using E val by (rule conjI)
  then show ?thesis
    unfolding pt_def .
qed


end
